theory Spec2Isabelle
  imports
    Main
    "HOL-Library.Word"
    "HOL-Library.Signed_Division"
    "HOL-Library.AList"
    "HOL-Library.Char_ord"
    "HOL-Library.List_Lexorder"
    "HOL-Library.Sublist"
begin

unbundle bit_operations_syntax

section \<open>The strax inserter of redax: data model\<close>

text \<open>
  The development embeds \<^verbatim>\<open>src/StraxInserter.cc\<close>. A \<^verbatim>\<open>std::string\<close> used as a
  byte buffer is a list of bytes; a \<^verbatim>\<open>std::string\<close> used as a name is a \<open>string\<close>.
  The machine is little-endian (the code appends the object representation of its
  integers to the fragment).
\<close>

type_synonym byte = "8 word"
type_synonym u16 = "16 word"
type_synonym u32 = "32 word"
type_synonym u64 = "64 word"

text \<open>\<^verbatim>\<open>fragment.append((char*)&x, n)\<close>: the \<open>n\<close> low bytes of \<open>x\<close>, lowest first.\<close>

primrec le_bytes :: "nat \<Rightarrow> 'a::len word \<Rightarrow> byte list" where
  "le_bytes 0 w = []"
| "le_bytes (Suc n) w = ucast w # le_bytes n (drop_bit 8 w)"










subsection \<open>Names of chunks\<close>

text \<open>\<^verbatim>\<open>std::to_string(int)\<close>: decimal digits, a minus sign for a negative value.\<close>

definition digit_char :: "nat \<Rightarrow> char" where
  "digit_char d = ''0123456789'' ! d"

function digits :: "nat \<Rightarrow> string" where
  "digits n = (if n < 10 then [digit_char n] else digits (n div 10) @ [digit_char (n mod 10)])"
  by pat_completeness auto
termination
  by (relation "measure id") auto

declare digits.simps [simp del]

definition to_string :: "int \<Rightarrow> string" where
  "to_string i = (if i < 0 then CHR ''-'' # digits (nat (- i)) else digits (nat i))"

text \<open>
  \<^verbatim>\<open>while(chunk_index.size() < fChunkNameLength) chunk_index.insert(0, "0");\<close>
  The loop stands three times in the source (twice in \<^verbatim>\<open>AddFragmentToBuffer\<close>, once
  in \<^verbatim>\<open>GetStringFormat\<close>).
\<close>

function pad_zeros :: "nat \<Rightarrow> string \<Rightarrow> string" where
  "pad_zeros n s = (if length s < n then pad_zeros n (CHR ''0'' # s) else s)"
  by pat_completeness auto
termination
  by (relation "measure (\<lambda>(n, s). n - length s)") auto

declare pad_zeros.simps [simp del]

definition fChunkNameLength :: nat where
  "fChunkNameLength = 6"

definition fStraxHeaderSize :: int where
  "fStraxHeaderSize = 24"

definition GetStringFormat :: "int \<Rightarrow> string" where
  "GetStringFormat i = pad_zeros fChunkNameLength (to_string i)"

subsection \<open>Configuration and state of one worker\<close>

text \<open>
  The format of a board (\<^verbatim>\<open>fFmt[bid]\<close>, a \<^verbatim>\<open>std::map<std::string, int>\<close> read with
  \<^verbatim>\<open>operator[]\<close>); only the keys the inserter reads.
\<close>

record board_format =
  channel_mask_msb_idx :: int
  channel_header_words :: int
  channel_time_msb_idx :: int
  ns_per_clk :: int
  ns_per_sample :: int

text \<open>
  What \<^verbatim>\<open>Initialize\<close> fixes for the run. The compressor (LZ4 frame or blosc) is an
  external library: a function on byte strings. \<open>thread_tag\<close> is the printed
  \<^verbatim>\<open>std::this_thread::get_id()\<close>. \<open>GetChannel\<close> is the channel map of the options.
\<close>

record config =
  fFullChunkLength :: int
  fChunkOverlap :: int
  fFragmentBytes :: int
  fOutputPath :: string
  fHostname :: string
  thread_tag :: string
  compress :: "byte list \<Rightarrow> byte list"
  GetChannel :: "int \<Rightarrow> nat \<Rightarrow> u16"
  fFmt :: "int \<Rightarrow> board_format"

text \<open>
  \<^verbatim>\<open>std::map<std::string, std::string*> fFragments\<close>: an association list with distinct
  keys; the map's iteration order (ascending keys) is computed where the code iterates.
\<close>

type_synonym buckets = "(string \<times> byte list) list"

text \<open>
  The state of a worker that the functions below read and write, with the part of the
  world they act on: the directories and files of the output tree, and the calls of
  \<^verbatim>\<open>fDataSource->CheckError\<close>. \<open>routed\<close> is not a field of the class: it records the
  arguments of every call of \<^verbatim>\<open>AddFragmentToBuffer\<close>, in order, so that what the
  worker emitted can be stated.
\<close>

record worker =
  fFragments :: buckets
  fFragmentSize :: int
  fMissingVerified :: nat
  fFailCounter :: "int \<rightharpoonup> int"
  fEventsProcessed :: nat
  fFragmentsProcessed :: nat
  fBytesProcessed :: nat
  fForceQuit :: bool
  dirs :: "string set"
  files :: "string \<rightharpoonup> byte list"
  CheckError_calls :: "int list"
  routed :: "(byte list \<times> u64) list"

datatype error =
  DivisionByZero
  | ReadPastEnd
  | ChannelMapFailure
  | InvalidArgument
  | OutOfRange
  | FilesystemError
  | SignedOverflow

section \<open>The chunk router\<close>

text \<open>
  \<^verbatim>\<open>if(fFragments.count(key) == 0) fFragments[key] = new std::string();\<close>
  \<^verbatim>\<open>fFragments[key]->append(fragment);\<close>
\<close>

definition bucket_data :: "buckets \<Rightarrow> string \<Rightarrow> byte list" where
  "bucket_data m key = (case map_of m key of None \<Rightarrow> [] | Some buf \<Rightarrow> buf)"

definition bucket_append :: "string \<Rightarrow> byte list \<Rightarrow> buckets \<Rightarrow> buckets" where
  "bucket_append key fragment m = AList.update key (bucket_data m key @ fragment) m"

text \<open>\<^verbatim>\<open>int chunk_id = ...\<close>: a 64-bit quotient stored in an \<^verbatim>\<open>int\<close>.\<close>

definition to_int32 :: "int \<Rightarrow> int" where
  "to_int32 i = sint (word_of_int i :: 32 word)"

text \<open>
  \<^verbatim>\<open>StraxInserter::AddFragmentToBuffer\<close> (lines 392-425). The timestamp is an
  \<^verbatim>\<open>int64_t\<close>; C++ division truncates towards zero and traps on a zero divisor.
\<close>

definition AddFragmentToBuffer ::
  "config \<Rightarrow> byte list \<Rightarrow> u64 \<Rightarrow> worker \<Rightarrow> error + (int \<times> worker)" where
  "AddFragmentToBuffer cfg fragment timestamp w =
    (if fFullChunkLength cfg = 0 then Inl DivisionByZero
     else
       let chunk_id = to_int32 (sint timestamp sdiv fFullChunkLength cfg);
           nextpre = ((chunk_id + 1) * fFullChunkLength cfg - sint timestamp < fChunkOverlap cfg);
           chunk_index = pad_zeros fChunkNameLength (to_string chunk_id);
           w1 = w\<lparr>fFragmentSize := fFragmentSize w + int (length fragment),
                  routed := routed w @ [(fragment, timestamp)]\<rparr>
       in if \<not> nextpre then
            Inr (chunk_id, w1\<lparr>fFragments := bucket_append chunk_index fragment (fFragments w1)\<rparr>)
          else
            let nextchunk_index = pad_zeros fChunkNameLength (to_string (chunk_id + 1))
            in Inr (chunk_id,
                 w1\<lparr>fFragments :=
                      bucket_append (chunk_index @ ''_post'') fragment
                        (bucket_append (nextchunk_index @ ''_pre'') fragment (fFragments w1))\<rparr>))"

section \<open>The artificial dead-time fragment\<close>

text \<open>
  \<^verbatim>\<open>while ((int)fragment.size() < fFragmentBytes+fStraxHeaderSize)\<close>
  \<^verbatim>\<open>  fragment.append((char*)&zero, sizeof(zero));\<close>
\<close>

function zero_fill :: "int \<Rightarrow> byte list \<Rightarrow> byte list" where
  "zero_fill target fragment =
    (if int (length fragment) < target then zero_fill target (fragment @ [0]) else fragment)"
  by pat_completeness auto
termination
  by (relation "measure (\<lambda>(target, fragment). nat (target - int (length fragment)))") auto

declare zero_fill.simps [simp del]

text \<open>
  The bytes \<^verbatim>\<open>GenerateArtificialDeadtime\<close> builds (lines 129-145):
  \<^verbatim>\<open>int32_t length = fFragmentBytes>>1\<close>, \<^verbatim>\<open>int16_t sw = 10\<close>,
  \<^verbatim>\<open>int16_t channel = 790\<close>, the board id after the header, then zeros.
\<close>

definition deadtime_fragment :: "config \<Rightarrow> u64 \<Rightarrow> u16 \<Rightarrow> byte list" where
  "deadtime_fragment cfg timestamp bid =
    (let length32 = (word_of_int (fFragmentBytes cfg div 2) :: u32);
         sw = (10 :: u16);
         channel = (790 :: u16);
         fragment_i = (0 :: u16);
         baseline = (0 :: u16);
         fragment =
           le_bytes 8 timestamp @ le_bytes 4 length32 @ le_bytes 2 sw @ le_bytes 2 channel
           @ le_bytes 4 length32 @ le_bytes 2 fragment_i @ le_bytes 2 baseline @ le_bytes 2 bid
     in zero_fill (fFragmentBytes cfg + fStraxHeaderSize) fragment)"

definition GenerateArtificialDeadtime ::
  "config \<Rightarrow> u64 \<Rightarrow> u16 \<Rightarrow> worker \<Rightarrow> error + worker" where
  "GenerateArtificialDeadtime cfg timestamp bid w =
    (case AddFragmentToBuffer cfg (deadtime_fragment cfg timestamp bid) timestamp w of
       Inl e \<Rightarrow> Inl e
     | Inr (chunk_id, w') \<Rightarrow> Inr w')"

section \<open>The chunk writer\<close>

subsection \<open>The output tree\<close>

text \<open>
  The output tree is the set of directories and the map of files of the worker record.
  Directory names and file names are kept apart: a file path of the inserter has one
  component more than any directory it creates. The run directory \<^verbatim>\<open>fOutputPath\<close>
  exists (\<^verbatim>\<open>Initialize\<close> creates it). \<^verbatim>\<open>fs::path\<close> operations are string operations:
  \<^verbatim>\<open>/=\<close> appends a separator and a component, \<^verbatim>\<open>+=\<close> appends text.
\<close>

definition GetDirectoryPath :: "config \<Rightarrow> string \<Rightarrow> bool \<Rightarrow> string" where
  "GetDirectoryPath cfg chunk temp =
    fOutputPath cfg @ ''/'' @ chunk @ (if temp then ''_temp'' else [])"

definition GetFilePath :: "config \<Rightarrow> string \<Rightarrow> bool \<Rightarrow> string" where
  "GetFilePath cfg chunk temp =
    GetDirectoryPath cfg chunk temp @ ''/'' @ fHostname cfg @ ''_'' @ thread_tag cfg"

text \<open>\<^verbatim>\<open>fs::exists(p)\<close>\<close>

definition fs_exists :: "worker \<Rightarrow> string \<Rightarrow> bool" where
  "fs_exists w p \<longleftrightarrow> p \<in> dirs w \<or> files w p \<noteq> None"

text \<open>\<^verbatim>\<open>fs::create_directory(p)\<close>, called only where \<^verbatim>\<open>fs::exists(p)\<close> is false.\<close>

definition create_directory :: "string \<Rightarrow> worker \<Rightarrow> worker" where
  "create_directory p w = w\<lparr>dirs := insert p (dirs w)\<rparr>"

text \<open>
  \<^verbatim>\<open>std::ofstream\<close> opened on \<open>path\<close> in directory \<open>dir\<close>, written and closed: the file
  is created or truncated and holds \<open>data\<close>; where the directory is missing the stream
  fails and nothing is written (the code does not look at the stream's state).
\<close>

definition write_file :: "string \<Rightarrow> string \<Rightarrow> byte list \<Rightarrow> worker \<Rightarrow> worker" where
  "write_file dir path data w =
    (if dir \<in> dirs w then w\<lparr>files := (files w)(path \<mapsto> data)\<rparr> else w)"

text \<open>
  \<^verbatim>\<open>fs::rename(src, dst)\<close> of a file into directory \<open>dstdir\<close>: throws where the source
  does not exist or the target directory is missing; replaces an existing target.
\<close>

definition fs_rename :: "string \<Rightarrow> string \<Rightarrow> string \<Rightarrow> worker \<Rightarrow> error + worker" where
  "fs_rename src dstdir dst w =
    (case files w src of
       None \<Rightarrow> Inl FilesystemError
     | Some data \<Rightarrow>
         if dstdir \<in> dirs w then Inr (w\<lparr>files := ((files w)(src := None))(dst \<mapsto> data)\<rparr>)
         else Inl FilesystemError)"

subsection \<open>Gap filling\<close>

text \<open>
  One of the three blocks of the loop body of \<^verbatim>\<open>CreateMissing\<close> (lines 599-605,
  606-612 without its \<^verbatim>\<open>x!=0\<close>, 613-619), for the name \<open>chunk\<close>:
  \<^verbatim>\<open>if(!fs::exists(GetFilePath(chunk, false))){\<close>
  \<^verbatim>\<open>  if(!fs::exists(GetDirectoryPath(chunk, false)))\<close>
  \<^verbatim>\<open>    fs::create_directory(GetDirectoryPath(chunk, false));\<close>
  \<^verbatim>\<open>  std::ofstream o; o.open(GetFilePath(chunk, false)); o.close(); }\<close>
\<close>

definition create_if_missing :: "config \<Rightarrow> string \<Rightarrow> worker \<Rightarrow> worker" where
  "create_if_missing cfg chunk w =
    (if \<not> fs_exists w (GetFilePath cfg chunk False) then
       let w1 = (if \<not> fs_exists w (GetDirectoryPath cfg chunk False)
                 then create_directory (GetDirectoryPath cfg chunk False) w else w)
       in write_file (GetDirectoryPath cfg chunk False) (GetFilePath cfg chunk False) [] w1
     else w)"

text \<open>
  The body of the loop for one \<^verbatim>\<open>unsigned int x\<close>; \<^verbatim>\<open>GetStringFormat\<close> takes an
  \<^verbatim>\<open>int\<close>.
\<close>

definition CreateMissing_body :: "config \<Rightarrow> nat \<Rightarrow> worker \<Rightarrow> worker" where
  "CreateMissing_body cfg x w =
    (let chunk_index = GetStringFormat (to_int32 (int x));
         chunk_index_pre = chunk_index @ ''_pre'';
         chunk_index_post = chunk_index @ ''_post'';
         w1 = create_if_missing cfg chunk_index w;
         w2 = (if x \<noteq> 0 then create_if_missing cfg chunk_index_pre w1 else w1)
     in create_if_missing cfg chunk_index_post w2)"

text \<open>
  \<^verbatim>\<open>StraxInserter::CreateMissing\<close> (lines 593-622):
  \<^verbatim>\<open>for(unsigned int x=fMissingVerified; x<back_from_id; x++){...}\<close>
  \<^verbatim>\<open>fMissingVerified = back_from_id;\<close>
\<close>

definition CreateMissing :: "config \<Rightarrow> nat \<Rightarrow> worker \<Rightarrow> worker" where
  "CreateMissing cfg back_from_id w =
    (fold (CreateMissing_body cfg) [fMissingVerified w ..< back_from_id] w)
      \<lparr>fMissingVerified := back_from_id\<rparr>"

subsection \<open>Reading the chunk id of a bucket name\<close>

definition is_space :: "char \<Rightarrow> bool" where
  "is_space c \<longleftrightarrow> c \<in> set [CHR '' '', CHR 0x09, CHR 0x0A, CHR 0x0B, CHR 0x0C, CHR 0x0D]"

definition is_digit :: "char \<Rightarrow> bool" where
  "is_digit c \<longleftrightarrow> c \<in> set ''0123456789''"

definition digit_val :: "char \<Rightarrow> nat" where
  "digit_val c = of_char c - 48"

definition digits_value :: "string \<Rightarrow> nat" where
  "digits_value ds = foldl (\<lambda>acc c. acc * 10 + digit_val c) 0 ds"

text \<open>
  \<^verbatim>\<open>std::stoi(s)\<close>: leading white space, an optional sign, then the longest run of
  decimal digits; \<^verbatim>\<open>std::invalid_argument\<close> where there is no digit,
  \<^verbatim>\<open>std::out_of_range\<close> where the value does not fit an \<^verbatim>\<open>int\<close>.
\<close>

definition stoi :: "string \<Rightarrow> error + int" where
  "stoi s =
    (let s1 = dropWhile is_space s;
         neg = (s1 \<noteq> [] \<and> hd s1 = CHR ''-'');
         s2 = (if s1 \<noteq> [] \<and> (hd s1 = CHR ''-'' \<or> hd s1 = CHR ''+'') then tl s1 else s1);
         ds = takeWhile is_digit s2;
         v = (if neg then - int (digits_value ds) else int (digits_value ds))
     in if ds = [] then Inl InvalidArgument
        else if v < - (2 ^ 31) \<or> 2 ^ 31 \<le> v then Inl OutOfRange
        else Inr v)"

subsection \<open>Writing out\<close>

text \<open>
  The loop of \<^verbatim>\<open>WriteOutFiles\<close> over the buckets (lines 483-535), given the keys in
  the order the map iterates them. The state is the worker and \<^verbatim>\<open>idx_to_clear\<close>. The
  bucket a key names is deleted in the loop and erased from the map after it; the model
  keeps it in the map until then.
\<close>

fun WriteOutFiles_loop ::
  "config \<Rightarrow> int \<Rightarrow> bool \<Rightarrow> string list \<Rightarrow> worker \<times> string list
    \<Rightarrow> error + (worker \<times> string list)" where
  "WriteOutFiles_loop cfg smallest_index_seen at_end [] st = Inr st"
| "WriteOutFiles_loop cfg smallest_index_seen at_end (chunk_index # rest) (w, idx_to_clear) =
    (if chunk_index = [] then Inr (w, idx_to_clear)
     else
       case stoi (take fChunkNameLength chunk_index) of
         Inl e \<Rightarrow> Inl e
       | Inr idnrint \<Rightarrow>
           if \<not> (idnrint < smallest_index_seen - 1 \<or> at_end) then
             WriteOutFiles_loop cfg smallest_index_seen at_end rest (w, idx_to_clear)
           else
             let w1 = (if \<not> fs_exists w (GetDirectoryPath cfg chunk_index True)
                       then create_directory (GetDirectoryPath cfg chunk_index True) w else w);
                 uncompressed = bucket_data (fFragments w1) chunk_index;
                 out_buffer = compress cfg uncompressed;
                 w2 = w1\<lparr>fFragmentSize := fFragmentSize w1 - int (length uncompressed)\<rparr>;
                 w3 = write_file (GetDirectoryPath cfg chunk_index True)
                        (GetFilePath cfg chunk_index True) out_buffer w2;
                 w4 = (if \<not> fs_exists w3 (GetDirectoryPath cfg chunk_index False)
                       then create_directory (GetDirectoryPath cfg chunk_index False) w3 else w3)
             in case fs_rename (GetFilePath cfg chunk_index True)
                       (GetDirectoryPath cfg chunk_index False)
                       (GetFilePath cfg chunk_index False) w4 of
                  Inl e \<Rightarrow> Inl e
                | Inr w5 \<Rightarrow>
                    WriteOutFiles_loop cfg smallest_index_seen at_end rest
                      (CreateMissing cfg (unat (word_of_int idnrint :: u32)) w5,
                       idx_to_clear @ [chunk_index]))"

definition the_end_text :: "byte list" where
  "the_end_text = map (\<lambda>c. of_nat (of_char c)) ''...my only friend''"

text \<open>
  \<^verbatim>\<open>StraxInserter::WriteOutFiles\<close> (lines 478-565). A \<^verbatim>\<open>std::map\<close> iterates in
  ascending order of its keys; \<^verbatim>\<open>std::string\<close> compares bytes.
\<close>

definition WriteOutFiles :: "config \<Rightarrow> int \<Rightarrow> bool \<Rightarrow> worker \<Rightarrow> error + worker" where
  "WriteOutFiles cfg smallest_index_seen at_end w =
    (case WriteOutFiles_loop cfg smallest_index_seen at_end (sort (map fst (fFragments w))) (w, []) of
       Inl e \<Rightarrow> Inl e
     | Inr (w1, idx_to_clear) \<Rightarrow>
         let w2 = w1\<lparr>fFragments := fold AList.delete idx_to_clear (fFragments w1)\<rparr>
         in if at_end then
              let w3 = w2\<lparr>fFragments := [], fFragmentSize := 0\<rparr>;
                  write_path = fOutputPath cfg @ ''/'' @ ''THE_END'';
                  w4 = (if \<not> fs_exists w3 write_path then create_directory write_path w3 else w3)
              in Inr (write_file write_path
                        (write_path @ ''/'' @ fHostname cfg @ ''_'' @ thread_tag cfg)
                        the_end_text w4)
            else Inr w2)"

subsection \<open>Notions for stating what the writer does\<close>


definition bucket_key :: "string \<Rightarrow> bool" where
  "bucket_key k \<longleftrightarrow>
    \<not> isl (stoi (take fChunkNameLength k)) \<and> \<not> suffix ''_temp'' k \<and> CHR ''/'' \<notin> set k"


text \<open>
  The state of the tree the writer relies on: every file in it is a file of this worker
  in one of the chunk directories, and its directory exists; no directory has the path
  of a file of the worker.
\<close>

definition tree_ok :: "config \<Rightarrow> worker \<Rightarrow> bool" where
  "tree_ok cfg w \<longleftrightarrow>
    (\<forall>p. files w p \<noteq> None \<longrightarrow>
       (\<exists>k t. p = GetFilePath cfg k t \<and> GetDirectoryPath cfg k t \<in> dirs w))
    \<and> (\<forall>k t. GetFilePath cfg k t \<notin> dirs w)"


text \<open>
  A chunk directory with the worker's file in it, and the three of them (two for chunk 0)
  for a chunk id.
\<close>

definition chunk_present :: "config \<Rightarrow> string \<Rightarrow> worker \<Rightarrow> bool" where
  "chunk_present cfg name w \<longleftrightarrow>
    GetDirectoryPath cfg name False \<in> dirs w \<and> files w (GetFilePath cfg name False) \<noteq> None"

definition gap_free_at :: "config \<Rightarrow> int \<Rightarrow> worker \<Rightarrow> bool" where
  "gap_free_at cfg k w \<longleftrightarrow>
    chunk_present cfg (GetStringFormat k) w
    \<and> chunk_present cfg (GetStringFormat k @ ''_post'') w
    \<and> (k \<noteq> 0 \<longrightarrow> chunk_present cfg (GetStringFormat k @ ''_pre'') w)"

subsection \<open>The life of a worker, as far as buckets and tree go\<close>

text \<open>
  \<^verbatim>\<open>ParseDocuments\<close> calls \<^verbatim>\<open>AddFragmentToBuffer\<close> once for every fragment and
  \<^verbatim>\<open>WriteOutFiles(smallest_latest_index_seen)\<close> once for a packet; nothing else touches the
  buckets or the tree until \<^verbatim>\<open>ReadAndInsertData\<close> ends with
  \<^verbatim>\<open>WriteOutFiles(1000000, true)\<close>. A run is any sequence of such calls.
\<close>

datatype call = Route "byte list" u64 | Flush int

fun run :: "config \<Rightarrow> call list \<Rightarrow> worker \<Rightarrow> error + worker" where
  "run cfg [] w = Inr w"
| "run cfg (Route fragment timestamp # cs) w =
    (case AddFragmentToBuffer cfg fragment timestamp w of
       Inl e \<Rightarrow> Inl e
     | Inr (chunk_id, w') \<Rightarrow> run cfg cs w')"
| "run cfg (Flush smallest_index_seen # cs) w =
    (case WriteOutFiles cfg smallest_index_seen False w of
       Inl e \<Rightarrow> Inl e
     | Inr w' \<Rightarrow> run cfg cs w')"


subsection \<open>Invariants of the writer\<close>




section \<open>The packet decoder\<close>

subsection \<open>Packets\<close>

text \<open>
  \<^verbatim>\<open>data_packet\<close>: the words of the buffer as allocated, the number of bytes of data in
  it, the clock counter and header time the reader attached, and the board id. Reading a
  word outside the allocation is undefined in C++; the model returns \<open>ReadPastEnd\<close>.
\<close>

record data_packet =
  buff :: "u32 list"
  size_dp :: u32
  clock_counter :: u32
  header_time :: u32
  bid :: int

definition buff_at :: "u32 list \<Rightarrow> u32 \<Rightarrow> error + u32" where
  "buff_at b i = (if unat i < length b then Inr (b ! unat i) else Inl ReadPastEnd)"

text \<open>\<^verbatim>\<open>unsigned total_words = size/sizeof(u_int32_t)\<close>\<close>

definition total_words :: "data_packet \<Rightarrow> u32" where
  "total_words dp = size_dp dp div 4"

text \<open>
  The buffer as bytes, and \<^verbatim>\<open>fragment.append(data_loc, n)\<close> with
  \<^verbatim>\<open>data_loc = &payload[first]\<close>, \<^verbatim>\<open>payload\<close> the buffer as 16-bit samples.
\<close>

definition buff_bytes :: "u32 list \<Rightarrow> byte list" where
  "buff_bytes b = concat (map (le_bytes 4) b)"

definition payload_bytes_at :: "u32 list \<Rightarrow> u32 \<Rightarrow> u32 \<Rightarrow> error + byte list" where
  "payload_bytes_at b first n =
    (if 2 * unat first + unat n \<le> 4 * length b
     then Inr (take (unat n) (drop (2 * unat first) (buff_bytes b)))
     else Inl ReadPastEnd)"

text \<open>\<^verbatim>\<open>__builtin_popcount\<close>\<close>

definition popcount :: "u32 \<Rightarrow> u32" where
  "popcount w = of_nat (length (filter (bit w) [0..<32]))"

subsection \<open>State of the decoder within a packet\<close>

text \<open>
  The locals of \<^verbatim>\<open>ParseDocuments\<close> that live across the loops (\<^verbatim>\<open>idx\<close>, the two
  vectors of 16 entries, \<^verbatim>\<open>smallest_latest_index_seen\<close>) and the worker. The per-channel
  byte counters \<^verbatim>\<open>data_per_chan\<close>, the log and the timers are left out: nothing below
  depends on them.
\<close>

record parse_state =
  idx :: u32
  clock_counters :: "u32 list"
  last_times_seen :: "u32 list"
  smallest_latest_index_seen :: int
  wk :: worker

text \<open>What the event header gives (lines 176-191) and where the event starts.\<close>

record event =
  words_in_event :: u32
  channel_mask :: u32
  channels_in_event :: u32
  board_fail :: bool
  event_time :: u32
  event_start_idx :: u32

text \<open>The locals of one channel after its header (lines 210-213 and 218-239).\<close>

record channel =
  channel_words :: u32
  channel_time :: u32
  channel_timeMSB :: u32
  baseline_ch :: u16

subsection \<open>The event header\<close>

definition read_event_header ::
  "data_packet \<Rightarrow> board_format \<Rightarrow> u32 \<Rightarrow> u32 \<Rightarrow> error + event" where
  "read_event_header dp fmt i h0 =
    (case buff_at (buff dp) (i + 1) of
       Inl e \<Rightarrow> Inl e
     | Inr h1 \<Rightarrow>
         (case (if channel_mask_msb_idx fmt \<noteq> - 1 then buff_at (buff dp) (i + 2) else Inr 0) of
            Inl e \<Rightarrow> Inl e
          | Inr h2 \<Rightarrow>
              (case buff_at (buff dp) (i + 3) of
                 Inl e \<Rightarrow> Inl e
               | Inr h3 \<Rightarrow>
                   let mask = (if channel_mask_msb_idx fmt \<noteq> - 1
                               then push_bit 8 (drop_bit 24 h2 AND 0xFF) OR (h1 AND 0xFF)
                               else h1 AND 0xFF)
                   in Inr \<lparr>words_in_event = min (h0 AND 0xFFFFFFF) (total_words dp - i),
                           channel_mask = mask,
                           channels_in_event = popcount mask,
                           board_fail = (h1 AND 0x4000000 \<noteq> 0),
                           event_time = h3 AND 0xFFFFFFFF,
                           event_start_idx = i\<rparr>)))"

subsection \<open>The channel header and the clock counter\<close>

text \<open>
  Lines 248-261, for one channel: the counter after the three tests. \<^verbatim>\<open>15e8\<close> and
  \<^verbatim>\<open>5e8\<close> are compared as numbers.
\<close>

definition clock_rollover :: "u32 \<Rightarrow> u32 \<Rightarrow> u32 \<Rightarrow> u32 \<Rightarrow> u32" where
  "clock_rollover ch_time hdr_time last_time_seen ctr =
    (let ctr1 =
       (if 1500000000 < unat ch_time \<and> unat hdr_time < 500000000
             \<and> last_time_seen = 0xFFFFFFFF \<and> ctr \<noteq> 0
        then ctr - 1
        else if unat ch_time < 500000000 \<and> 1500000000 < unat hdr_time
             \<and> last_time_seen = 0xFFFFFFFF
        then ctr + 1
        else ctr)
     in if ch_time < last_time_seen \<and> last_time_seen \<noteq> 0xFFFFFFFF then ctr1 + 1 else ctr1)"

text \<open>
  How a channel starts (lines 209-266): a garbled channel header ends the event, an
  empty channel is skipped, otherwise the waveform follows.
\<close>

datatype channel_start =
  GarbledHeader parse_state
  | EmptyChannel parse_state
  | Waveform channel parse_state

definition read_channel_header ::
  "data_packet \<Rightarrow> board_format \<Rightarrow> event \<Rightarrow> nat \<Rightarrow> parse_state \<Rightarrow> error + channel_start" where
  "read_channel_header dp fmt ev ch s =
    (if 0 < channel_header_words fmt then
       (case buff_at (buff dp) (idx s) of
          Inl e \<Rightarrow> Inl e
        | Inr r0 \<Rightarrow>
            let cw = min (r0 AND 0x7FFFFF) (words_in_event ev - (idx s - event_start_idx ev))
            in if cw < r0 AND 0x7FFFFF then
                 Inr (GarbledHeader (s\<lparr>idx := idx s + of_int (channel_header_words fmt)\<rparr>))
               else if cw \<le> of_int (channel_header_words fmt) then
                 Inr (EmptyChannel (s\<lparr>idx := idx s + (of_int (channel_header_words fmt) - cw)\<rparr>))
               else
                 (case buff_at (buff dp) (idx s + 1) of
                    Inl e \<Rightarrow> Inl e
                  | Inr r1 \<Rightarrow>
                      (case (if channel_time_msb_idx fmt = 2 then buff_at (buff dp) (idx s + 2)
                             else Inr 0) of
                         Inl e \<Rightarrow> Inl e
                       | Inr r2 \<Rightarrow>
                           let s1 = s\<lparr>idx := idx s + of_int (channel_header_words fmt)\<rparr>;
                               s2 = (if channel_header_words fmt \<le> 2 then
                                       s1\<lparr>clock_counters := (clock_counters s1)
                                             [ch := clock_rollover r1 (header_time dp)
                                                      (last_times_seen s1 ! ch)
                                                      (clock_counters s1 ! ch)],
                                          last_times_seen := (last_times_seen s1)[ch := r1]\<rparr>
                                     else s1)
                           in Inr (Waveform
                                \<lparr>channel_words = cw - of_int (channel_header_words fmt),
                                 channel_time = r1 AND 0xFFFFFFFF,
                                 channel_timeMSB =
                                   (if channel_time_msb_idx fmt = 2 then r2 AND 0xFFFF else 0),
                                 baseline_ch =
                                   (if channel_time_msb_idx fmt = 2
                                    then ucast (drop_bit 16 r2 AND 0x3FFF) else 0)\<rparr>
                                s2))))
     else
       Inr (Waveform
         \<lparr>channel_words = (words_in_event ev - 4) div channels_in_event ev,
          channel_time = event_time ev, channel_timeMSB = 0, baseline_ch = 0\<rparr>
         s))"

subsection \<open>The absolute timestamp\<close>

text \<open>
  Lines 285-293. The product is taken in \<^verbatim>\<open>unsigned long\<close> (64 bits), the \<^verbatim>\<open>int\<close>
  factor converted to it.
\<close>

definition Time64_of :: "board_format \<Rightarrow> u32 \<Rightarrow> u32 \<Rightarrow> u32 \<Rightarrow> u64" where
  "Time64_of fmt timeMSB ctr ch_time =
    (if channel_time_msb_idx fmt = 2
     then of_int (ns_per_clk fmt) * (push_bit 32 (ucast timeMSB) + ucast ch_time)
     else of_int (ns_per_clk fmt) * (push_bit 31 (ucast ctr) + ucast ch_time))"

subsection \<open>The sanity check\<close>

text \<open>
  Lines 269-276: \<^verbatim>\<open>for (unsigned w = 0; w < channel_words; w++)\<close>, true when a word of
  the channel lies outside the packet or looks like an event header.
\<close>

function caen_check :: "data_packet \<Rightarrow> u32 \<Rightarrow> u32 \<Rightarrow> u32 \<Rightarrow> error + bool" where
  "caen_check dp i cw w =
    (if w < cw then
       (if total_words dp \<le> i + w then Inr True
        else case buff_at (buff dp) (i + w) of
               Inl e \<Rightarrow> Inl e
             | Inr v \<Rightarrow> if drop_bit 28 v = 0xA then Inr True else caen_check dp i cw (w + 1))
     else Inr False)"
  by pat_completeness auto
termination
proof (relation "measure (\<lambda>(dp, i, cw, w). unat cw - unat w)")
  show "wf (measure (\<lambda>(dp, i, cw, w). unat cw - unat w))"
    by simp
next
  fix dp :: data_packet and i cw w :: u32 and x2 :: u32
  assume "w < cw"
  then have "unat w < unat cw"
    by (simp add: word_less_nat_alt)
  moreover have "unat cw < 2 ^ LENGTH(32)"
    by (rule unsigned_less)
  ultimately have "unat w + unat (1 :: u32) < 2 ^ LENGTH(32)"
    by simp
  then have "unat (w + 1) = unat w + unat (1 :: u32)"
    by (simp only: unat_add_lem)
  with \<open>unat w < unat cw\<close> show "((dp, i, cw, w + 1), (dp, i, cw, w)) \<in> measure (\<lambda>(dp, i, cw, w). unat cw - unat w)"
    by simp
qed

declare caen_check.simps [simp del]

subsection \<open>The fragment builder\<close>

text \<open>What is fixed while the waveform of one channel is cut (lines 304-311).\<close>

record pulse =
  Time64 :: u64
  samples_in_pulse :: u32
  offset :: u32
  sw :: u16
  cl :: u16
  baseline :: u16
  fragment_samples :: int

definition fragment_header :: "u64 \<Rightarrow> u32 \<Rightarrow> u16 \<Rightarrow> u16 \<Rightarrow> u32 \<Rightarrow> u16 \<Rightarrow> u16 \<Rightarrow> byte list" where
  "fragment_header time_this_fragment samples_this_fragment sample_width channel_loc
      samples_in_pulse_f fragment_index baseline_f =
    le_bytes 8 time_this_fragment @ le_bytes 4 samples_this_fragment @ le_bytes 2 sample_width
    @ le_bytes 2 channel_loc @ le_bytes 4 samples_in_pulse_f @ le_bytes 2 fragment_index
    @ le_bytes 2 baseline_f"

text \<open>
  Arithmetic on \<^verbatim>\<open>int\<close> and \<^verbatim>\<open>int64_t\<close> is undefined in C++ when the result does not
  fit; the model returns \<open>SignedOverflow\<close> there.
\<close>

definition int32_ok :: "int \<Rightarrow> bool" where
  "int32_ok i = (- (2 ^ 31) \<le> i \<and> i < 2 ^ 31)"

definition int64_ok :: "int \<Rightarrow> bool" where
  "int64_ok i = (- (2 ^ 63) \<le> i \<and> i < 2 ^ 63)"

text \<open>
  One pass through \<^verbatim>\<open>while(index_in_pulse < samples_in_pulse)\<close> (lines 318-371). The
  loop variables are \<^verbatim>\<open>index_in_pulse\<close> and the 16-bit \<^verbatim>\<open>fragment_index\<close>; the flag
  says that the loop is left. \<^verbatim>\<open>fragment_index*fragment_samples\<close>, the sum with
  \<^verbatim>\<open>fragment_samples\<close> and \<^verbatim>\<open>fragment_samples*sw*fragment_index\<close> are computed in
  \<^verbatim>\<open>int\<close>, the sum with \<^verbatim>\<open>Time64\<close> in \<^verbatim>\<open>int64_t\<close>; the conversions to
  \<^verbatim>\<open>unsigned int\<close> and to \<^verbatim>\<open>u_int64_t\<close> wrap.
\<close>

definition fragment_step ::
  "config \<Rightarrow> data_packet \<Rightarrow> pulse \<Rightarrow> u32 \<times> u16 \<times> parse_state
    \<Rightarrow> error + (bool \<times> u32 \<times> u16 \<times> parse_state)" where
  "fragment_step cfg dp p st =
    (case st of (index_in_pulse, fragment_index, s) \<Rightarrow>
     if \<not> index_in_pulse < samples_in_pulse p then Inr (True, st)
     else if \<not> (int32_ok (uint fragment_index * fragment_samples p)
               \<and> int32_ok (fragment_samples p + uint fragment_index * fragment_samples p)
               \<and> int32_ok (fragment_samples p * uint (sw p))
               \<and> int32_ok (fragment_samples p * uint (sw p) * uint fragment_index)
               \<and> int64_ok (sint (Time64 p)
                     + fragment_samples p * uint (sw p) * uint fragment_index))
     then Inl SignedOverflow
     else
       let fs = fragment_samples p;
           clamp = (samples_in_pulse p < (of_int (fs + uint fragment_index * fs) :: u32));
           max_sample =
             (if clamp
              then index_in_pulse + (samples_in_pulse p - of_int (uint fragment_index * fs))
              else index_in_pulse + of_int fs);
           samples_this_fragment = (if clamp then max_sample - index_in_pulse else of_int fs);
           time_this_fragment = Time64 p + of_int (fs * uint (sw p) * uint fragment_index)
       in case payload_bytes_at (buff dp) (offset p + index_in_pulse) (samples_this_fragment * 2) of
            Inl e \<Rightarrow> Inl e
          | Inr data \<Rightarrow>
              let fragment =
                    zero_fill (fFragmentBytes cfg + fStraxHeaderSize)
                      (fragment_header time_this_fragment samples_this_fragment (sw p) (cl p)
                         (samples_in_pulse p) fragment_index (baseline p) @ data);
                  w1 = (wk s)\<lparr>fFragmentsProcessed := Suc (fFragmentsProcessed (wk s))\<rparr>
              in case AddFragmentToBuffer cfg fragment time_this_fragment w1 of
                   Inl e \<Rightarrow> Inl e
                 | Inr (chunk_id, w2) \<Rightarrow>
                     Inr (fForceQuit w2,
                          max_sample, fragment_index + 1,
                          s\<lparr>smallest_latest_index_seen :=
                              (if smallest_latest_index_seen s = - 1
                                  \<or> chunk_id < smallest_latest_index_seen s
                               then chunk_id else smallest_latest_index_seen s),
                            wk := w2\<rparr>))"

partial_function (option) fragment_loop ::
  "config \<Rightarrow> data_packet \<Rightarrow> pulse \<Rightarrow> u32 \<times> u16 \<times> parse_state
    \<Rightarrow> (error + (u32 \<times> u16 \<times> parse_state)) option" where
  "fragment_loop cfg dp p st =
    (case fragment_step cfg dp p st of
       Inl e \<Rightarrow> Some (Inl e)
     | Inr (leave, st') \<Rightarrow> if leave then Some (Inr st') else fragment_loop cfg dp p st')"

declare fragment_loop.simps [code]

subsection \<open>One channel, one event, one packet\<close>

text \<open>
  Lines 268-373 for a channel whose waveform starts at \<^verbatim>\<open>idx\<close>: the sanity check, the
  timestamp, then the dead-time fragment or the fragments of the waveform. The flag
  says that the loop over the channels is left.
\<close>

definition decode_channel ::
  "config \<Rightarrow> data_packet \<Rightarrow> board_format \<Rightarrow> event \<Rightarrow> nat \<Rightarrow> channel \<Rightarrow> parse_state
    \<Rightarrow> (error + (bool \<times> parse_state)) option" where
  "decode_channel cfg dp fmt ev ch c s =
    (case caen_check dp (idx s) (channel_words c) 0 of
       Inl e \<Rightarrow> Some (Inl e)
     | Inr whoops1 \<Rightarrow>
         let whoops = (whoops1 \<or> words_in_event ev \<le> idx s - event_start_idx ev);
             t64 = Time64_of fmt (channel_timeMSB c) (clock_counters s ! ch) (channel_time c)
         in if whoops then
              (case GenerateArtificialDeadtime cfg t64 (of_int (bid dp)) (wk s) of
                 Inl e \<Rightarrow> Some (Inl e)
               | Inr w' \<Rightarrow> Some (Inr (True, s\<lparr>wk := w'\<rparr>)))
            else
              let p = \<lparr>Time64 = t64,
                       samples_in_pulse = push_bit 1 (channel_words c),
                       offset = push_bit 1 (idx s),
                       sw = of_int (ns_per_sample fmt),
                       cl = GetChannel cfg (bid dp) ch,
                       baseline = baseline_ch c,
                       fragment_samples = fFragmentBytes cfg div 2\<rparr>
              in if cl p = - 1 then Some (Inl ChannelMapFailure)
                 else
                   (case fragment_loop cfg dp p (0, 0, s) of
                      None \<Rightarrow> None
                    | Some (Inl e) \<Rightarrow> Some (Inl e)
                    | Some (Inr (index_in_pulse, fragment_index, s')) \<Rightarrow>
                        Some (Inr (fForceQuit (wk s'),
                                   s'\<lparr>idx := idx s' + channel_words c\<rparr>))))"

definition channel_body ::
  "config \<Rightarrow> data_packet \<Rightarrow> board_format \<Rightarrow> event \<Rightarrow> nat \<Rightarrow> parse_state
    \<Rightarrow> (error + (bool \<times> parse_state)) option" where
  "channel_body cfg dp fmt ev ch s =
    (if \<not> bit (channel_mask ev) ch then Some (Inr (False, s))
     else
       case read_channel_header dp fmt ev ch s of
         Inl e \<Rightarrow> Some (Inl e)
       | Inr (GarbledHeader s') \<Rightarrow> Some (Inr (True, s'))
       | Inr (EmptyChannel s') \<Rightarrow> Some (Inr (False, s'))
       | Inr (Waveform c s') \<Rightarrow> decode_channel cfg dp fmt ev ch c s')"

text \<open>\<^verbatim>\<open>for(unsigned int channel=0; channel<max_channels; channel++)\<close>, with its breaks.\<close>

fun channel_loop ::
  "config \<Rightarrow> data_packet \<Rightarrow> board_format \<Rightarrow> event \<Rightarrow> nat list \<Rightarrow> parse_state
    \<Rightarrow> (error + parse_state) option" where
  "channel_loop cfg dp fmt ev [] s = Some (Inr s)"
| "channel_loop cfg dp fmt ev (ch # chs) s =
    (case channel_body cfg dp fmt ev ch s of
       None \<Rightarrow> None
     | Some (Inl e) \<Rightarrow> Some (Inl e)
     | Some (Inr (leave, s')) \<Rightarrow>
         if leave then Some (Inr s') else channel_loop cfg dp fmt ev chs s')"

definition max_channels :: nat where
  "max_channels = 16"

text \<open>
  One pass through the loop over the words of the packet (lines 171-379); the flag
  says that the loop is left.
\<close>

definition parse_step ::
  "config \<Rightarrow> data_packet \<Rightarrow> parse_state \<Rightarrow> (error + (bool \<times> parse_state)) option" where
  "parse_step cfg dp s =
    (if \<not> idx s < total_words dp then Some (Inr (True, s))
     else
       case buff_at (buff dp) (idx s) of
         Inl e \<Rightarrow> Some (Inl e)
       | Inr h0 \<Rightarrow>
           if h0 = 0xFFFFFFFF then Some (Inr (True, s))
           else if drop_bit 28 h0 = 0xA then
             (case read_event_header dp (fFmt cfg (bid dp)) (idx s) h0 of
                Inl e \<Rightarrow> Some (Inl e)
              | Inr ev \<Rightarrow>
                  let s1 = s\<lparr>wk := (wk s)\<lparr>fEventsProcessed := Suc (fEventsProcessed (wk s))\<rparr>\<rparr>
                  in if board_fail ev then
                       Some (Inr (False,
                         s1\<lparr>idx := idx s + 4,
                            wk := (wk s1)
                              \<lparr>CheckError_calls := CheckError_calls (wk s1) @ [bid dp],
                               fFailCounter := (fFailCounter (wk s1))
                                 (bid dp \<mapsto>
                                    (case fFailCounter (wk s1) (bid dp) of
                                       None \<Rightarrow> 0 | Some n \<Rightarrow> n) + 1)\<rparr>\<rparr>))
                     else
                       (case channel_loop cfg dp (fFmt cfg (bid dp)) ev [0..<max_channels]
                               (s1\<lparr>idx := idx s + 4\<rparr>) of
                          None \<Rightarrow> None
                        | Some (Inl e) \<Rightarrow> Some (Inl e)
                        | Some (Inr s2) \<Rightarrow> Some (Inr (fForceQuit (wk s2), s2))))
           else Some (Inr (False, s\<lparr>idx := idx s + 1\<rparr>)))"




section \<open>A configuration and a fresh worker for the examples\<close>

definition example_fmt :: board_format where
  "example_fmt =
    \<lparr>channel_mask_msb_idx = - 1, channel_header_words = 0, channel_time_msb_idx = - 1,
     ns_per_clk = 10, ns_per_sample = 10\<rparr>"

definition example_cfg :: config where
  "example_cfg =
    \<lparr>fFullChunkLength = 5500000000, fChunkOverlap = 500000000, fFragmentBytes = 4,
     fOutputPath = ''run'', fHostname = ''host'', thread_tag = ''1'',
     compress = (\<lambda>b. b), GetChannel = (\<lambda>bid ch. of_nat ch), fFmt = (\<lambda>bid. example_fmt)\<rparr>"

definition fresh_worker :: worker where
  "fresh_worker =
    \<lparr>fFragments = [], fFragmentSize = 0, fMissingVerified = 0, fFailCounter = Map.empty,
     fEventsProcessed = 0, fFragmentsProcessed = 0, fBytesProcessed = 0, fForceQuit = False,
     dirs = {}, files = Map.empty, CheckError_calls = [], routed = []\<rparr>"

text \<open>A packet with one event whose board-fail bit is set, and the state at the start of a packet.\<close>

definition failing_packet :: data_packet where
  "failing_packet =
    \<lparr>buff = [0xA0000004, 0x04000001, 0, 100000000, 0xFFFFFFFF], size_dp = 20,
     clock_counter = 0, header_time = 1600000000, bid = 7\<rparr>"

definition start_state :: "data_packet \<Rightarrow> worker \<Rightarrow> parse_state" where
  "start_state dp w =
    \<lparr>idx = 0, clock_counters = replicate max_channels (clock_counter dp),
     last_times_seen = replicate max_channels 0xFFFFFFFF,
     smallest_latest_index_seen = - 1, wk = w\<rparr>"






section \<open>Basic facts\<close>











section \<open>The chunk router: where a fragment goes\<close>




section \<open>The artificial dead-time fragment: layout\<close>





section \<open>Gap filling never overwrites\<close>

lemma create_if_missing_files:
  "files w p = Some d \<Longrightarrow> files (create_if_missing cfg chunk w) p = Some d"
  unfolding create_if_missing_def write_file_def create_directory_def fs_exists_def Let_def
  by auto

lemma create_if_missing_new:
  "files w p = None \<Longrightarrow>
     files (create_if_missing cfg chunk w) p = None \<or> files (create_if_missing cfg chunk w) p = Some []"
  unfolding create_if_missing_def write_file_def create_directory_def fs_exists_def Let_def
  by auto

lemma create_if_missing_dirs: "q \<in> dirs w \<Longrightarrow> q \<in> dirs (create_if_missing cfg chunk w)"
  unfolding create_if_missing_def write_file_def create_directory_def fs_exists_def Let_def
  by auto

lemma create_if_missing_frame:
  "fFragments (create_if_missing cfg chunk w) = fFragments w
   \<and> fMissingVerified (create_if_missing cfg chunk w) = fMissingVerified w
   \<and> routed (create_if_missing cfg chunk w) = routed w"
  unfolding create_if_missing_def write_file_def create_directory_def fs_exists_def Let_def
  by auto

lemma CreateMissing_body_files:
  "files w p = Some d \<Longrightarrow> files (CreateMissing_body cfg x w) p = Some d"
  unfolding CreateMissing_body_def Let_def
  by (simp add: create_if_missing_files)

lemma CreateMissing_body_new:
  assumes "files w p = None"
  shows "files (CreateMissing_body cfg x w) p = None \<or> files (CreateMissing_body cfg x w) p = Some []"
proof -
  have step: "\<And>v chunk. files v p = None \<or> files v p = Some [] \<Longrightarrow>
      files (create_if_missing cfg chunk v) p = None
      \<or> files (create_if_missing cfg chunk v) p = Some []"
    using create_if_missing_new create_if_missing_files by blast
  show ?thesis
    unfolding CreateMissing_body_def Let_def
    using assms by (auto intro!: step)
qed

lemma CreateMissing_body_dirs: "q \<in> dirs w \<Longrightarrow> q \<in> dirs (CreateMissing_body cfg x w)"
  unfolding CreateMissing_body_def Let_def
  by (simp add: create_if_missing_dirs)

lemma CreateMissing_body_frame:
  "fFragments (CreateMissing_body cfg x w) = fFragments w
   \<and> routed (CreateMissing_body cfg x w) = routed w"
  unfolding CreateMissing_body_def Let_def
  by (simp add: create_if_missing_frame)

lemma fold_CreateMissing_body_files:
  "files w p = Some d \<Longrightarrow> files (fold (CreateMissing_body cfg) xs w) p = Some d"
  by (induction xs arbitrary: w) (simp_all add: CreateMissing_body_files)

lemma fold_CreateMissing_body_new:
  "files w p = None \<or> files w p = Some [] \<Longrightarrow>
     files (fold (CreateMissing_body cfg) xs w) p = None
     \<or> files (fold (CreateMissing_body cfg) xs w) p = Some []"
proof (induction xs arbitrary: w)
  case Nil
  then show ?case by simp
next
  case (Cons x xs)
  have "files (CreateMissing_body cfg x w) p = None
      \<or> files (CreateMissing_body cfg x w) p = Some []"
    using Cons.prems CreateMissing_body_new CreateMissing_body_files by blast
  then show ?case
    using Cons.IH by simp
qed

lemma fold_CreateMissing_body_dirs:
  "q \<in> dirs w \<Longrightarrow> q \<in> dirs (fold (CreateMissing_body cfg) xs w)"
  by (induction xs arbitrary: w) (simp_all add: CreateMissing_body_dirs)

lemma fold_CreateMissing_body_frame:
  "fFragments (fold (CreateMissing_body cfg) xs w) = fFragments w
   \<and> routed (fold (CreateMissing_body cfg) xs w) = routed w"
  by (induction xs arbitrary: w) (simp_all add: CreateMissing_body_frame)

lemma CreateMissing_files:
  "files w p = Some d \<Longrightarrow> files (CreateMissing cfg back_from_id w) p = Some d"
  unfolding CreateMissing_def by (simp add: fold_CreateMissing_body_files)

lemma CreateMissing_dirs: "q \<in> dirs w \<Longrightarrow> q \<in> dirs (CreateMissing cfg back_from_id w)"
  unfolding CreateMissing_def by (simp add: fold_CreateMissing_body_dirs)

lemma CreateMissing_frame:
  "fFragments (CreateMissing cfg back_from_id w) = fFragments w
   \<and> routed (CreateMissing cfg back_from_id w) = routed w"
  unfolding CreateMissing_def by (simp add: fold_CreateMissing_body_frame)

text \<open>
  Claim C10. Whatever the watermark and the bound, a call of \<^verbatim>\<open>CreateMissing\<close> leaves
  every path either with the file it had, byte for byte, or, where there was no file,
  with no file or a new empty one; no directory is removed and the buckets in memory
  are not touched. So a chunk, \<open>_pre\<close> or \<open>_post\<close> file persisted before is never
  overwritten by gap filling.
\<close>

theorem CreateMissing_never_overwrites:
  "(files (CreateMissing cfg back_from_id w) p = files w p
     \<or> files w p = None \<and> files (CreateMissing cfg back_from_id w) p = Some [])
   \<and> dirs w \<subseteq> dirs (CreateMissing cfg back_from_id w)
   \<and> fFragments (CreateMissing cfg back_from_id w) = fFragments w"
proof (cases "files w p")
  case None
  then have "files (CreateMissing cfg back_from_id w) p = None
      \<or> files (CreateMissing cfg back_from_id w) p = Some []"
    unfolding CreateMissing_def by (simp add: fold_CreateMissing_body_new)
  with None show ?thesis
    by (auto simp add: CreateMissing_dirs CreateMissing_frame)
next
  case (Some d)
  then show ?thesis
    by (auto simp add: CreateMissing_files CreateMissing_dirs CreateMissing_frame)
qed

text \<open>
  An instance: chunk 1 of the worker is on disk with content \<open>[7]\<close>; filling the gaps
  below chunk 2 creates the empty files of chunk 0 and the missing ones of chunk 1, and
  leaves the file of chunk 1 as it is.
\<close>

lemma chunk_names:
  "GetStringFormat 0 = ''000000''" "GetStringFormat 1 = ''000001''"
  "GetStringFormat 2 = ''000002''" "GetStringFormat 3 = ''000003''"
  by (simp_all add: GetStringFormat_def to_string_def fChunkNameLength_def digit_char_def
        pad_zeros.simps digits.simps)

theorem CreateMissing_never_overwrites_example:
  "files (CreateMissing example_cfg 2
      (fresh_worker\<lparr>dirs := {''run/000001''}, files := [''run/000001/host_1'' \<mapsto> [7]]\<rparr>))
      ''run/000001/host_1'' = Some [7]
   \<and> files (CreateMissing example_cfg 2
      (fresh_worker\<lparr>dirs := {''run/000001''}, files := [''run/000001/host_1'' \<mapsto> [7]]\<rparr>))
      ''run/000000_post/host_1'' = Some []"
  using CreateMissing_never_overwrites [of example_cfg 2
      "fresh_worker\<lparr>dirs := {''run/000001''}, files := [''run/000001/host_1'' \<mapsto> [7]]\<rparr>"
      "''run/000001/host_1''"]
  by (simp add: CreateMissing_def CreateMissing_body_def create_if_missing_def write_file_def
      create_directory_def fs_exists_def Let_def fresh_worker_def example_cfg_def
      GetFilePath_def GetDirectoryPath_def to_int32_def chunk_names upt_rec)

section \<open>Chunk names and the ids read back from them\<close>





lemma digits_nonempty: "digits n \<noteq> []"
  by (simp add: digits.simps [of n])






lemma pad_zeros_replicate: "pad_zeros n s = replicate (n - length s) CHR ''0'' @ s"
proof (induction n s rule: pad_zeros.induct)
  case (1 n s)
  show ?case
  proof (cases "length s < n")
    case True
    then have "n - length s = Suc (n - length (CHR ''0'' # s))"
      by simp
    with True "1" show ?thesis
      by (simp add: pad_zeros.simps [of n s] replicate_app_Cons_same)
  next
    case False
    then show ?thesis
      by (simp add: pad_zeros.simps [of n s])
  qed
qed






lemma GetStringFormat_replicate:
  "GetStringFormat i = replicate (6 - length (to_string i)) CHR ''0'' @ to_string i"
  by (simp add: GetStringFormat_def pad_zeros_replicate fChunkNameLength_def)






lemma to_string_nonempty: "to_string i \<noteq> []"
  by (simp add: to_string_def digits_nonempty)


lemma GetStringFormat_nonempty: "GetStringFormat i \<noteq> []"
  by (simp add: GetStringFormat_replicate to_string_nonempty)













section \<open>The chunk writer: paths and single steps\<close>

















lemma tree_ok_cong:
  "dirs w' = dirs w \<Longrightarrow> files w' = files w \<Longrightarrow> tree_ok cfg w' = tree_ok cfg w"
  by (simp add: tree_ok_def)


section \<open>The chunk writer: which buckets are sealed\<close>




lemma bucket_key_keys_sorted:
  "\<forall>k\<in>fst ` set m. bucket_key k \<Longrightarrow> \<forall>k\<in>set (sort (map fst m)). bucket_key k"
  by simp





section \<open>Gap filling: nothing is missing below a sealed bucket\<close>














lemma gap_free_at_cong:
  "dirs w' = dirs w \<Longrightarrow> files w' = files w \<Longrightarrow> gap_free_at cfg k w' = gap_free_at cfg k w"
  by (simp add: gap_free_at_def chunk_present_def)




section \<open>Invariants of a run\<close>













section \<open>After the end-of-stream flush\<close>





section \<open>The packet decoder: a board-fail event\<close>

lemma total_words_bound: "unat (total_words dp) < 2 ^ 30"
proof -
  have "unat (size_dp dp) < 2 ^ 32"
    using unsigned_less [of "size_dp dp", where 'a = nat] by simp
  then show ?thesis
    by (simp add: total_words_def unat_div)
qed

lemma idx_in_packet:
  assumes "i < total_words dp"
  shows "unat i < 2 ^ 30"
  using assms total_words_bound [of dp] by (simp add: word_less_nat_alt)

lemma unat_idx_plus:
  assumes "unat (i :: u32) < 2 ^ 30" and "n < 2 ^ 30"
  shows "unat (i + of_nat n) = unat i + n"
proof -
  have n: "unat (of_nat n :: u32) = n"
    using assms(2) by (simp add: unat_of_nat)
  have "unat i + unat (of_nat n :: u32) < 2 ^ LENGTH(32)"
    using assms by (simp add: n)
  then have "unat (i + of_nat n) = unat i + unat (of_nat n :: u32)"
    by (simp only: unat_add_lem)
  then show ?thesis
    by (simp only: n)
qed

lemma buff_at_plus:
  assumes "unat (i :: u32) < 2 ^ 30" and "n < 2 ^ 30" and "unat i + n < length b"
  shows "buff_at b (i + of_nat n) = Inr (b ! (unat i + n))"
  using assms by (simp add: buff_at_def unat_idx_plus)

text \<open>
  Claim C9. The cursor stands on an event header inside the packet (its four words are
  in the buffer) whose second word has bit 26 set. Then this pass of the loop returns
  with the loop to be resumed, the cursor is four words further, the fail counter of the
  board is one higher, \<^verbatim>\<open>CheckError\<close> was called once more, for this board, and nothing
  else but the event counter has changed: no fragment was emitted.
\<close>

theorem board_fail_event:
  assumes "idx s < total_words dp"
    and "unat (idx s) + 3 < length (buff dp)"
    and "buff dp ! unat (idx s) \<noteq> 0xFFFFFFFF"
    and "drop_bit 28 (buff dp ! unat (idx s)) = 0xA"
    and "buff dp ! (unat (idx s) + 1) AND 0x4000000 \<noteq> 0"
  shows "parse_step cfg dp s =
      Some (Inr (False,
        s\<lparr>idx := idx s + 4,
          wk := (wk s)
            \<lparr>fEventsProcessed := Suc (fEventsProcessed (wk s)),
             CheckError_calls := CheckError_calls (wk s) @ [bid dp],
             fFailCounter := (fFailCounter (wk s))
               (bid dp \<mapsto> (case fFailCounter (wk s) (bid dp) of None \<Rightarrow> 0 | Some n \<Rightarrow> n) + 1)\<rparr>\<rparr>))
    \<and> unat (idx s + 4) = unat (idx s) + 4"
proof -
  have i: "unat (idx s) < 2 ^ 30"
    using assms(1) by (rule idx_in_packet)
  have r0: "buff_at (buff dp) (idx s) = Inr (buff dp ! unat (idx s))"
    using assms(2) by (simp add: buff_at_def)
  have r1: "buff_at (buff dp) (idx s + 1) = Inr (buff dp ! (unat (idx s) + 1))"
    using buff_at_plus [OF i, of 1 "buff dp"] assms(2) by simp
  have r2: "buff_at (buff dp) (idx s + 2) = Inr (buff dp ! (unat (idx s) + 2))"
    using buff_at_plus [OF i, of 2 "buff dp"] assms(2) by simp
  have r3: "buff_at (buff dp) (idx s + 3) = Inr (buff dp ! (unat (idx s) + 3))"
    using buff_at_plus [OF i, of 3 "buff dp"] assms(2) by simp
  have ev: "\<exists>ev. read_event_header dp (fFmt cfg (bid dp)) (idx s) (buff dp ! unat (idx s)) = Inr ev
      \<and> board_fail ev"
    using assms(5) by (simp add: read_event_header_def r1 r2 r3 Let_def)
  have adv: "unat (idx s + 4) = unat (idx s) + 4"
    using unat_idx_plus [OF i, of 4] by simp
  from ev obtain ev where
    "read_event_header dp (fFmt cfg (bid dp)) (idx s) (buff dp ! unat (idx s)) = Inr ev"
    and "board_fail ev"
    by blast
  then show ?thesis
    using assms(1,3,4) adv by (simp add: parse_step_def r0 Let_def)
qed

theorem board_fail_event_witness:
  "parse_step example_cfg failing_packet (start_state failing_packet fresh_worker) =
      Some (Inr (False,
        (start_state failing_packet fresh_worker)
          \<lparr>idx := 4,
           wk := fresh_worker
             \<lparr>fEventsProcessed := 1, CheckError_calls := [7],
              fFailCounter := [7 \<mapsto> 1]\<rparr>\<rparr>))"
  using board_fail_event [of "start_state failing_packet fresh_worker" failing_packet example_cfg]
  by (simp add: start_state_def failing_packet_def fresh_worker_def total_words_def)

section \<open>The clock counter of a channel\<close>

lemma and_all_ones32 [simp]: "(x :: u32) AND 0xFFFFFFFF = x"
proof -
  have "(0xFFFFFFFF :: u32) = - 1"
    by simp
  then show ?thesis
    by (simp only: word_bw_comms bit.conj_one_right and.right_neutral)
qed




end
